theory Spec2Isabelle
  imports Complex_Main "HOL-Library.Sublist"
begin

section \<open>Data model of the probe (src/websocket_probe.py)\<close>

text \<open>
  The probe measures response times as Python floats; they are modelled as reals, so the
  rounding of float arithmetic is not part of the model.  The one non-finite value the
  program uses is \<^verbatim>\<open>float('inf')\<close>, the initial \<^verbatim>\<open>min_response_time\<close>.
\<close>

datatype latency = Finite real | Infinity

fun lat_less :: "latency \<Rightarrow> latency \<Rightarrow> bool" where
  "lat_less (Finite a) (Finite b) = (a < b)"
| "lat_less (Finite a) Infinity = True"
| "lat_less Infinity b = False"

text \<open>Python's \<^verbatim>\<open>min(a, b)\<close> and \<^verbatim>\<open>max(a, b)\<close> keep the first argument
  unless the second is strictly smaller (larger).\<close>

definition py_min :: "latency \<Rightarrow> latency \<Rightarrow> latency" where
  "py_min a b = (if lat_less b a then b else a)"

definition py_max :: "real \<Rightarrow> real \<Rightarrow> real" where
  "py_max a b = (if a < b then b else a)"

text \<open>The \<^verbatim>\<open>self.stats\<close> dictionary: its eight keys are fixed, so it is a record.\<close>

record stats =
  connection_attempts :: int
  successful_connections :: int
  failed_connections :: int
  messages_sent :: int
  messages_received :: int
  total_response_time :: real
  min_response_time :: latency
  max_response_time :: real

definition new_stats :: stats where
  "new_stats = \<lparr>connection_attempts = 0, successful_connections = 0, failed_connections = 0,
     messages_sent = 0, messages_received = 0, total_response_time = 0,
     min_response_time = Infinity, max_response_time = 0\<rparr>"

text \<open>
  Exceptions raised by the websockets library and by \<^verbatim>\<open>asyncio.wait_for\<close>.  An
  \<open>InvalidStatus\<close> carries what the handler reads from it: the exception's own
  \<^verbatim>\<open>status_code\<close> attribute (older library versions) and the \<^verbatim>\<open>status_code\<close> of
  its \<^verbatim>\<open>response\<close> attribute (newer versions), each absent as \<open>None\<close>.  Every
  constructor but the first carries \<^verbatim>\<open>str(e)\<close>.
\<close>

datatype exn =
    TimeoutError
  | InvalidStatus "int option" "int option" string
  | InvalidHandshake string
  | ConnectionClosed string
  | TypeError string
  | OtherException string

fun exn_str :: "exn \<Rightarrow> string" where
  "exn_str TimeoutError = []"
| "exn_str (InvalidStatus sc resp m) = m"
| "exn_str (InvalidHandshake m) = m"
| "exn_str (ConnectionClosed m) = m"
| "exn_str (TypeError m) = m"
| "exn_str (OtherException m) = m"

text \<open>
  What \<^verbatim>\<open>getattr(e, 'status_code', None)\<close> gives, and the \<^verbatim>\<open>status_code\<close> of
  \<^verbatim>\<open>getattr(e, 'response', None)\<close>: only an \<open>InvalidStatus\<close> has these attributes.
\<close>

fun attr_status_code :: "exn \<Rightarrow> int option" where
  "attr_status_code (InvalidStatus sc resp m) = sc"
| "attr_status_code e = None"

fun attr_response_status :: "exn \<Rightarrow> int option" where
  "attr_response_status (InvalidStatus sc resp m) = resp"
| "attr_response_status e = None"

section \<open>The class WebSocketExceptions\<close>

text \<open>
  At import the program looks three exception classes up in \<^verbatim>\<open>websockets.exceptions\<close>,
  each under two names, and falls back to \<^verbatim>\<open>Exception\<close> when both look-ups raise
  \<^verbatim>\<open>AttributeError\<close>.  The environment says which of the six names the look-up finds.
\<close>

record exceptions_module =
  has_InvalidStatus :: bool
  has_InvalidStatusCode :: bool
  has_InvalidHandshake :: bool
  has_InvalidHandshakeError :: bool
  has_ConnectionClosed :: bool
  has_ConnectionClosedError :: bool

datatype exn_class =
    InvalidStatus_class
  | InvalidStatusCode_class
  | InvalidHandshake_class
  | InvalidHandshakeError_class
  | ConnectionClosed_class
  | ConnectionClosedError_class
  | Exception_class

definition get_invalid_status_exception :: "exceptions_module \<Rightarrow> exn_class" where
  "get_invalid_status_exception lib =
     (if has_InvalidStatus lib then InvalidStatus_class
      else if has_InvalidStatusCode lib then InvalidStatusCode_class
      else Exception_class)"

definition get_invalid_handshake_exception :: "exceptions_module \<Rightarrow> exn_class" where
  "get_invalid_handshake_exception lib =
     (if has_InvalidHandshake lib then InvalidHandshake_class
      else if has_InvalidHandshakeError lib then InvalidHandshakeError_class
      else Exception_class)"

definition get_connection_closed_exception :: "exceptions_module \<Rightarrow> exn_class" where
  "get_connection_closed_exception lib =
     (if has_ConnectionClosed lib then ConnectionClosed_class
      else if has_ConnectionClosedError lib then ConnectionClosedError_class
      else Exception_class)"

text \<open>
  Whether an \<^verbatim>\<open>except\<close> clause for the class catches the exception.  Every exception
  of the model is an \<^verbatim>\<open>Exception\<close>.  An \<open>InvalidStatus\<close>, an \<open>InvalidHandshake\<close> and a
  \<open>ConnectionClosed\<close> value stand for instances of the library's class of that kind
  under whichever name the look-up finds it; in the library the status classes are
  subclasses of the handshake class.
\<close>

fun isinstance :: "exn \<Rightarrow> exn_class \<Rightarrow> bool" where
  "isinstance e Exception_class = True"
| "isinstance (InvalidStatus sc resp m) c =
     (c = InvalidStatus_class \<or> c = InvalidStatusCode_class
      \<or> c = InvalidHandshake_class \<or> c = InvalidHandshakeError_class)"
| "isinstance (InvalidHandshake m) c =
     (c = InvalidHandshake_class \<or> c = InvalidHandshakeError_class)"
| "isinstance (ConnectionClosed m) c =
     (c = ConnectionClosed_class \<or> c = ConnectionClosedError_class)"
| "isinstance e c = False"

text \<open>The value of the local \<^verbatim>\<open>status_code\<close> once \<^verbatim>\<open>or 'Unknown'\<close> has been applied.\<close>

datatype status_code = Code int | Unknown

text \<open>The lines the probe writes to its logger, one constructor per message of the source.\<close>

datatype log_line =
    Info_connecting string
  | Info_debug_settings int "(string \<times> string) list"
  | Warn_ssl_verify_disabled
  | Info_ssl_settings bool
  | Warn_headers_unsupported
  | Info_connected
  | Error_connect_timeout int
  | Error_connect_status status_code
  | Hint_plain_http_service
  | Hint_check_url_and_protocol
  | Hint_path_not_found
  | Hint_access_denied
  | Hint_auth_required
  | Error_handshake string
  | Hint_upgrade_failed
  | Error_connect_failed string
  | Error_no_active_connection
  | Info_message_sent string
  | Info_response_received real string
  | Error_response_timeout int
  | Error_connection_closed
  | Error_send_failed string
  | Info_ping_ok real
  | Error_ping_timeout
  | Error_ping_failed string
  | Info_connection_closed

text \<open>A connection object returned by \<^verbatim>\<open>websockets.connect\<close>; only its identity matters.\<close>

datatype conn = Conn nat

text \<open>The attributes of a \<^verbatim>\<open>WebSocketProbe\<close>, with the logger's output as a trace.\<close>

record probe =
  uri :: string
  timeout :: int
  headers :: "(string \<times> string) list"
  skip_ssl_verify :: bool
  debug :: bool
  connection :: "conn option"
  stats :: stats
  logs :: "log_line list"

definition WebSocketProbe ::
  "string \<Rightarrow> int \<Rightarrow> (string \<times> string) list \<Rightarrow> bool \<Rightarrow> bool \<Rightarrow> probe" where
  "WebSocketProbe u t h s d =
     \<lparr>uri = u, timeout = t, headers = h, skip_ssl_verify = s, debug = d,
      connection = None, stats = new_stats, logs = []\<rparr>"

section \<open>Strings\<close>

text \<open>Python's \<^verbatim>\<open>sub in s\<close> on strings.\<close>

fun contains :: "string \<Rightarrow> string \<Rightarrow> bool" where
  "contains sub [] = (sub = [])"
| "contains sub (c # cs) = (prefix sub (c # cs) \<or> contains sub cs)"

text \<open>\<^verbatim>\<open>str.lower\<close>, on the ASCII letters.\<close>

definition lower_char :: "char \<Rightarrow> char" where
  "lower_char c =
     (if 65 \<le> (of_char c :: nat) \<and> (of_char c :: nat) \<le> 90
      then char_of ((of_char c :: nat) + 32) else c)"

definition lower :: "string \<Rightarrow> string" where
  "lower s = map lower_char s"

text \<open>
  \<^verbatim>\<open>str.replace(old, new)\<close>: every non-overlapping occurrence of \<open>old\<close>, found from
  the left, is replaced.  \<open>replace_from k\<close> skips the \<open>k\<close> characters that remain of an
  occurrence already replaced.
\<close>

fun replace_from :: "nat \<Rightarrow> string \<Rightarrow> string \<Rightarrow> string \<Rightarrow> string" where
  "replace_from k old new [] = []"
| "replace_from (Suc k) old new (c # cs) = replace_from k old new cs"
| "replace_from 0 old new (c # cs) =
     (if prefix old (c # cs) then new @ replace_from (length old - 1) old new cs
      else c # replace_from 0 old new cs)"

definition replace :: "string \<Rightarrow> string \<Rightarrow> string \<Rightarrow> string" where
  "replace old new s =
     (if old = [] then new @ concat (map (\<lambda>c. c # new) s) else replace_from 0 old new s)"

section \<open>WebSocketProbe.connect\<close>

text \<open>
  The three ways the source calls \<^verbatim>\<open>websockets.connect\<close>.  The environment is a
  function giving the outcome of \<^verbatim>\<open>await asyncio.wait_for(websockets.connect(...))\<close> for
  each of them: the connection, or the exception raised.
\<close>

datatype header_arg = Additional_headers | Extra_headers | No_headers

type_synonym ws_connect = "header_arg \<Rightarrow> exn + conn"

fun type_error_mentions :: "string \<Rightarrow> exn \<Rightarrow> bool" where
  "type_error_mentions k (TypeError m) = contains k m"
| "type_error_mentions k e = False"

text \<open>The inner \<^verbatim>\<open>try\<close> of \<open>connect\<close>: the fallback over the header parameter's name.
  A \<^verbatim>\<open>TypeError\<close> that does not name the parameter, and any other exception, is
  raised on to the outer handlers.\<close>

definition open_connection :: "ws_connect \<Rightarrow> (exn + conn) \<times> log_line list" where
  "open_connection ws =
     (case ws Additional_headers of
        Inr c \<Rightarrow> (Inr c, [])
      | Inl e \<Rightarrow>
          if type_error_mentions ''additional_headers'' e then
            (case ws Extra_headers of
               Inr c \<Rightarrow> (Inr c, [])
             | Inl e2 \<Rightarrow>
                 if type_error_mentions ''extra_headers'' e2
                 then (ws No_headers, [Warn_headers_unsupported])
                 else (Inl e2, []))
          else (Inl e, []))"

text \<open>\<^verbatim>\<open>getattr(e, 'status_code', None) or getattr(e, 'response', None)\<close>, then the
  response's own \<^verbatim>\<open>status_code\<close>, then \<^verbatim>\<open>or 'Unknown'\<close>: 0 and \<open>None\<close> are falsy.\<close>

definition extract_status_code :: "int option \<Rightarrow> int option \<Rightarrow> status_code" where
  "extract_status_code sc resp =
     (let v = (case sc of None \<Rightarrow> resp | Some n \<Rightarrow> if n \<noteq> 0 then Some n else resp)
      in case v of None \<Rightarrow> Unknown | Some n \<Rightarrow> if n \<noteq> 0 then Code n else Unknown)"

definition status_hints :: "status_code \<Rightarrow> log_line list" where
  "status_hints sc =
     (if sc = Code 200 then [Hint_plain_http_service, Hint_check_url_and_protocol]
      else if sc = Code 404 then [Hint_path_not_found]
      else if sc = Code 403 then [Hint_access_denied]
      else if sc = Code 401 then [Hint_auth_required]
      else [])"

text \<open>The \<^verbatim>\<open>except\<close> clauses of \<open>connect\<close>, in the source's order: the timeout,
  then the three classes as they were resolved at import.  Each clause first adds one to
  \<^verbatim>\<open>failed_connections\<close>.\<close>

definition connect_failure_logs :: "exceptions_module \<Rightarrow> int \<Rightarrow> exn \<Rightarrow> log_line list" where
  "connect_failure_logs lib t e =
     (if e = TimeoutError then [Error_connect_timeout t]
      else if isinstance e (get_invalid_status_exception lib) then
        Error_connect_status
            (extract_status_code (attr_status_code e) (attr_response_status e))
          # status_hints (extract_status_code (attr_status_code e) (attr_response_status e))
      else if isinstance e (get_invalid_handshake_exception lib) then
        Error_handshake (exn_str e)
          # (if contains ''upgrade'' (lower (exn_str e))
                \<or> contains ''websocket'' (lower (exn_str e))
             then [Hint_upgrade_failed] else [])
      else [Error_connect_failed (exn_str e)])"

definition connect_prologue :: "probe \<Rightarrow> log_line list" where
  "connect_prologue p =
     [Info_connecting (uri p)]
     @ (if debug p then [Info_debug_settings (timeout p) (headers p)] else [])
     @ (if prefix ''wss://'' (uri p)
        then (if skip_ssl_verify p then [Warn_ssl_verify_disabled] else [])
             @ (if debug p then [Info_ssl_settings (\<not> skip_ssl_verify p)] else [])
        else [])"

definition connect ::
  "exceptions_module \<Rightarrow> ws_connect \<Rightarrow> probe \<Rightarrow> bool \<times> probe" where
  "connect lib ws p =
     (let p1 = p\<lparr>stats := (stats p)\<lparr>connection_attempts := connection_attempts (stats p) + 1\<rparr>,
                 logs := logs p @ connect_prologue p\<rparr>;
          (r, w) = open_connection ws
      in case r of
           Inr c \<Rightarrow>
             (True, p1\<lparr>connection := Some c,
                       stats := (stats p1)\<lparr>successful_connections :=
                                  successful_connections (stats p1) + 1\<rparr>,
                       logs := logs p1 @ w @ [Info_connected]\<rparr>)
         | Inl e \<Rightarrow>
             (False, p1\<lparr>stats := (stats p1)\<lparr>failed_connections :=
                                   failed_connections (stats p1) + 1\<rparr>,
                        logs := logs p1 @ w @ connect_failure_logs lib (timeout p1) e\<rparr>))"

section \<open>WebSocketProbe.send_message, ping_test, close\<close>

text \<open>
  What the environment does during one \<^verbatim>\<open>send_message\<close>: the exception raised by
  \<^verbatim>\<open>connection.send\<close> (if any), the reply or the exception of the awaited
  \<^verbatim>\<open>connection.recv\<close>, and the two readings of \<^verbatim>\<open>time.time()\<close>.
\<close>

record send_env =
  send_raises :: "exn option"
  recv_result :: "exn + string"
  start_time :: real
  end_time :: real

text \<open>The \<^verbatim>\<open>except\<close> clauses of \<open>send_message\<close>, in the source's order.\<close>

definition send_failure_logs :: "exceptions_module \<Rightarrow> int \<Rightarrow> exn \<Rightarrow> log_line list" where
  "send_failure_logs lib t e =
     (if e = TimeoutError then [Error_response_timeout t]
      else if isinstance e (get_connection_closed_exception lib) then [Error_connection_closed]
      else [Error_send_failed (exn_str e)])"

definition send_message ::
  "exceptions_module \<Rightarrow> send_env \<Rightarrow> string \<Rightarrow> probe \<Rightarrow> real option \<times> probe" where
  "send_message lib env message p =
     (case connection p of
        None \<Rightarrow> (None, p\<lparr>logs := logs p @ [Error_no_active_connection]\<rparr>)
      | Some c \<Rightarrow>
          (case send_raises env of
             Some e \<Rightarrow> (None, p\<lparr>logs := logs p @ send_failure_logs lib (timeout p) e\<rparr>)
           | None \<Rightarrow>
               (let p1 = p\<lparr>stats := (stats p)\<lparr>messages_sent := messages_sent (stats p) + 1\<rparr>,
                           logs := logs p @ [Info_message_sent (take 100 message)]\<rparr>
                in case recv_result env of
                     Inl e \<Rightarrow> (None, p1\<lparr>logs := logs p1 @ send_failure_logs lib (timeout p1) e\<rparr>)
                   | Inr response \<Rightarrow>
                       (let response_time = (end_time env - start_time env) * 1000
                        in (Some response_time,
                            p1\<lparr>stats := (stats p1)
                                 \<lparr>messages_received := messages_received (stats p1) + 1,
                                  total_response_time :=
                                    total_response_time (stats p1) + response_time,
                                  min_response_time :=
                                    py_min (min_response_time (stats p1)) (Finite response_time),
                                  max_response_time :=
                                    py_max (max_response_time (stats p1)) response_time\<rparr>,
                               logs := logs p1
                                 @ [Info_response_received response_time (take 100 response)]\<rparr>)))))"

text \<open>One \<^verbatim>\<open>ping_test\<close>: the exception raised by the ping or by the wait for the pong
  (if any) and the two clock readings.\<close>

record ping_env =
  ping_raises :: "exn option"
  ping_start :: real
  ping_end :: real

fun ping_failure_logs :: "exn \<Rightarrow> log_line list" where
  "ping_failure_logs TimeoutError = [Error_ping_timeout]"
| "ping_failure_logs e = [Error_ping_failed (exn_str e)]"

definition ping_test :: "ping_env \<Rightarrow> probe \<Rightarrow> bool \<times> probe" where
  "ping_test env p =
     (case connection p of
        None \<Rightarrow> (False, p\<lparr>logs := logs p @ [Error_no_active_connection]\<rparr>)
      | Some c \<Rightarrow>
          (case ping_raises env of
             None \<Rightarrow> (True, p\<lparr>logs := logs p @ [Info_ping_ok ((ping_end env - ping_start env) * 1000)]\<rparr>)
           | Some e \<Rightarrow> (False, p\<lparr>logs := logs p @ ping_failure_logs e\<rparr>)))"

text \<open>
  \<open>close\<close> has no handler of its own: an exception of the library's
  \<^verbatim>\<open>connection.close()\<close> leaves it.  The first component is that exception, if any.
  The source never assigns \<^verbatim>\<open>self.connection\<close> here.
\<close>

definition close :: "exn option \<Rightarrow> probe \<Rightarrow> exn option \<times> probe" where
  "close lib_close p =
     (case connection p of
        None \<Rightarrow> (None, p)
      | Some c \<Rightarrow>
          (case lib_close of
             Some e \<Rightarrow> (Some e, p)
           | None \<Rightarrow> (None, p\<lparr>logs := logs p @ [Info_connection_closed]\<rparr>)))"

section \<open>WebSocketProbe.http_probe\<close>

definition http_url :: "string \<Rightarrow> string" where
  "http_url u = replace ''wss://'' ''https://'' (replace ''ws://'' ''http://'' u)"

text \<open>The GET request: its URL, its headers, and the TLS context (\<open>None\<close> when the URL is
  not https, otherwise whether certificates are verified).\<close>

record http_request =
  req_url :: string
  req_headers :: "(string \<times> string) list"
  req_tls_verify :: "bool option"

datatype http_content = Content string | Content_unreadable

datatype http_outcome =
    Http_response int "(string \<times> string) list" string string "string option"
  | Http_raises string

datatype http_result =
    Http_snapshot int "(string \<times> string) list" string string http_content
  | Http_error string

definition http_request_of :: "probe \<Rightarrow> http_request" where
  "http_request_of p =
     \<lparr>req_url = http_url (uri p), req_headers = headers p,
      req_tls_verify = (if prefix ''https://'' (http_url (uri p))
                        then Some (\<not> skip_ssl_verify p) else None)\<rparr>"

definition http_probe :: "(http_request \<Rightarrow> http_outcome) \<Rightarrow> probe \<Rightarrow> http_result" where
  "http_probe http_get p =
     (case http_get (http_request_of p) of
        Http_raises m \<Rightarrow> Http_error m
      | Http_response status hs ctype url text \<Rightarrow>
          Http_snapshot status hs ctype url
            (case text of
               None \<Rightarrow> Content_unreadable
             | Some content \<Rightarrow>
                 Content (if length content > 500 then take 500 content else content)))"

section \<open>Sequences of operations on one session\<close>

datatype op =
    Connect ws_connect
  | Send_message send_env string
  | Ping_test ping_env
  | Close "exn option"
  | Http_probe "http_request \<Rightarrow> http_outcome"

fun step :: "exceptions_module \<Rightarrow> op \<Rightarrow> probe \<Rightarrow> probe" where
  "step lib (Connect ws) p = snd (connect lib ws p)"
| "step lib (Send_message env m) p = snd (send_message lib env m p)"
| "step lib (Ping_test env) p = snd (ping_test env p)"
| "step lib (Close lib_close) p = snd (close lib_close p)"
| "step lib (Http_probe http_get) p = p"

fun run :: "exceptions_module \<Rightarrow> op list \<Rightarrow> probe \<Rightarrow> probe" where
  "run lib [] p = p"
| "run lib (x # xs) p = run lib xs (step lib x p)"

section \<open>Console output\<close>

text \<open>What the drivers print: the notice before a sleep, the banner of the stress
  test, and the two statistics blocks, each carrying the record its lines are formatted
  from.\<close>

datatype out_line =
    Out_waiting int
  | Out_stats stats
  | Out_stress_start int int
  | Out_stress_summary stats


section \<open>WebSocketProbeRunner.continuous_probe\<close>





section \<open>WebSocketProbeRunner.stress_test\<close>

record trial_env =
  tr_connect :: ws_connect
  tr_send :: send_env
  tr_close :: "exn option"

text \<open>\<^verbatim>\<open>single_test\<close>: the value \<^verbatim>\<open>asyncio.gather(..., return_exceptions=True)\<close>
  holds for the trial, its statistics or the exception that left it.\<close>

definition single_test ::
  "exceptions_module \<Rightarrow> string \<Rightarrow> string \<Rightarrow> (string \<times> string) list \<Rightarrow> bool \<Rightarrow> trial_env \<Rightarrow> exn + stats" where
  "single_test lib u message hs skip e =
     (let (ok, p1) = connect lib (tr_connect e) (WebSocketProbe u 5 hs skip False);
          p2 = (if ok then snd (send_message lib (tr_send e) message p1) else p1)
      in case fst (close (tr_close e) p2) of
           Some x \<Rightarrow> Inl x
         | None \<Rightarrow> Inr (stats p2))"

text \<open>The body of \<^verbatim>\<open>for key in total_stats\<close> for one result.\<close>

definition merge_result :: "stats \<Rightarrow> stats \<Rightarrow> stats" where
  "merge_result total_stats result =
     \<lparr>connection_attempts = connection_attempts total_stats + connection_attempts result,
      successful_connections = successful_connections total_stats + successful_connections result,
      failed_connections = failed_connections total_stats + failed_connections result,
      messages_sent = messages_sent total_stats + messages_sent result,
      messages_received = messages_received total_stats + messages_received result,
      total_response_time = total_response_time total_stats + total_response_time result,
      min_response_time =
        (if min_response_time result \<noteq> Infinity
         then py_min (min_response_time total_stats) (min_response_time result)
         else min_response_time total_stats),
      max_response_time = py_max (max_response_time total_stats) (max_response_time result)\<rparr>"

text \<open>\<^verbatim>\<open>for result in results: if isinstance(result, dict): ...\<close>\<close>

fun aggregate :: "stats \<Rightarrow> (exn + stats) list \<Rightarrow> stats" where
  "aggregate total_stats [] = total_stats"
| "aggregate total_stats (Inr result # results) = aggregate (merge_result total_stats result) results"
| "aggregate total_stats (Inl x # results) = aggregate total_stats results"

definition stress_results ::
  "exceptions_module \<Rightarrow> (nat \<Rightarrow> trial_env) \<Rightarrow> string \<Rightarrow> int \<Rightarrow> string \<Rightarrow> (string \<times> string) list \<Rightarrow> bool
     \<Rightarrow> (exn + stats) list" where
  "stress_results lib envs u count message hs skip =
     map (\<lambda>i. single_test lib u message hs skip (envs i)) [0..<nat count]"

text \<open>
  The driver.  \<^verbatim>\<open>asyncio.Semaphore\<close> raises \<^verbatim>\<open>ValueError\<close> for a negative value; with
  the value 0 every trial waits for the semaphore for ever, so the driver does not return
  (\<open>None\<close>) unless there is no trial.  The trials share no state, so the results do not
  depend on how they interleave.
\<close>

definition stress_test ::
  "exceptions_module \<Rightarrow> (nat \<Rightarrow> trial_env) \<Rightarrow> string \<Rightarrow> int \<Rightarrow> int \<Rightarrow> string \<Rightarrow> (string \<times> string) list \<Rightarrow> bool
     \<Rightarrow> (exn option \<times> out_line list) option" where
  "stress_test lib envs u count concurrency message hs skip =
     (if concurrency < 0
      then Some (Some (OtherException ''Semaphore initial value must be >= 0''),
                 [Out_stress_start count concurrency])
      else if concurrency = 0 \<and> 0 < count then None
      else Some (None,
                 [Out_stress_start count concurrency,
                  Out_stress_summary
                    (aggregate new_stats (stress_results lib envs u count message hs skip))]))"

section \<open>Invariants of the statistics\<close>

definition balanced :: "stats \<Rightarrow> bool" where
  "balanced s = (successful_connections s + failed_connections s = connection_attempts s)"

text \<open>What the operations maintain of the response times: the maximum is never
  negative, and as long as no reply was received the extrema keep their initial values.\<close>

definition stats_wf :: "stats \<Rightarrow> bool" where
  "stats_wf s =
     (0 \<le> max_response_time s \<and> 0 \<le> messages_received s
      \<and> (messages_received s = 0 \<longrightarrow> min_response_time s = Infinity \<and> max_response_time s = 0))"

section \<open>Environments used in the examples\<close>

text \<open>A library whose exception classes are all found under their current names, and
  one where no look-up succeeds, so that all three classes are \<^verbatim>\<open>Exception\<close>.\<close>

definition websockets_exceptions :: exceptions_module where
  "websockets_exceptions =
     \<lparr>has_InvalidStatus = True, has_InvalidStatusCode = True, has_InvalidHandshake = True,
      has_InvalidHandshakeError = False, has_ConnectionClosed = True,
      has_ConnectionClosedError = True\<rparr>"

definition no_exception_classes :: exceptions_module where
  "no_exception_classes =
     \<lparr>has_InvalidStatus = False, has_InvalidStatusCode = False, has_InvalidHandshake = False,
      has_InvalidHandshakeError = False, has_ConnectionClosed = False,
      has_ConnectionClosedError = False\<rparr>"

definition ws_refused :: ws_connect where
  "ws_refused a = Inl (OtherException ''connection refused'')"

definition ws_accepts :: ws_connect where
  "ws_accepts a = Inr (Conn 1)"

definition ws_status_200 :: ws_connect where
  "ws_status_200 a = Inl (InvalidStatus None (Some 200) ''server rejected WebSocket connection: HTTP 200'')"

definition echo_50ms :: send_env where
  "echo_50ms = \<lparr>send_raises = None, recv_result = Inr ''ping'', start_time = 10, end_time = 10.05\<rparr>"

definition no_reply :: send_env where
  "no_reply = \<lparr>send_raises = None, recv_result = Inl TimeoutError, start_time = 10, end_time = 15\<rparr>"


definition example_probe :: probe where
  "example_probe = WebSocketProbe ''ws://localhost:9001/echo'' 5 [] False False"


definition good_trial :: trial_env where
  "good_trial = \<lparr>tr_connect = ws_accepts, tr_send = echo_50ms, tr_close = None\<rparr>"

definition close_fails_trial :: trial_env where
  "close_fails_trial =
     \<lparr>tr_connect = ws_accepts, tr_send = echo_50ms,
      tr_close = Some (OtherException ''close failed'')\<rparr>"

definition one_raising_trial :: "nat \<Rightarrow> trial_env" where
  "one_raising_trial i = (if i = 1 then close_fails_trial else good_trial)"

definition all_good_trials :: "nat \<Rightarrow> trial_env" where
  "all_good_trials i = good_trial"

definition connected_probe :: probe where
  "connected_probe = snd (connect websockets_exceptions ws_accepts example_probe)"

section \<open>How each operation changes the session\<close>

lemma connect_stats:
  "stats (snd (connect lib ws p)) =
     (stats p)\<lparr>connection_attempts := connection_attempts (stats p) + 1,
               successful_connections :=
                 successful_connections (stats p) + (if fst (connect lib ws p) then 1 else 0),
               failed_connections :=
                 failed_connections (stats p) + (if fst (connect lib ws p) then 0 else 1)\<rparr>"
  by (simp add: connect_def Let_def split: prod.split sum.split)

lemma connect_ok_iff: "fst (connect lib ws p) = (\<exists>c. fst (open_connection ws) = Inr c)"
  by (simp add: connect_def Let_def split: prod.split sum.split)

lemma connect_connection:
  "connection (snd (connect lib ws p)) =
     (case fst (open_connection ws) of Inr c \<Rightarrow> Some c | Inl e \<Rightarrow> connection p)"
  by (simp add: connect_def Let_def split: prod.split sum.split)

lemma send_message_conn_counters:
  "connection_attempts (stats (snd (send_message lib env m p))) = connection_attempts (stats p)"
  "successful_connections (stats (snd (send_message lib env m p))) = successful_connections (stats p)"
  "failed_connections (stats (snd (send_message lib env m p))) = failed_connections (stats p)"
  by (simp_all add: send_message_def Let_def split: option.split sum.split)

lemma send_message_connection: "connection (snd (send_message lib env m p)) = connection p"
  by (simp add: send_message_def Let_def split: option.split sum.split)

lemma send_message_no_handle:
  "connection p = None \<Longrightarrow>
     send_message lib env m p = (None, p\<lparr>logs := logs p @ [Error_no_active_connection]\<rparr>)"
  by (simp add: send_message_def)

lemma send_message_reply:
  "connection p = Some c \<Longrightarrow> send_raises env = None \<Longrightarrow> recv_result env = Inr reply \<Longrightarrow>
     fst (send_message lib env m p) = Some ((end_time env - start_time env) * 1000)
     \<and> stats (snd (send_message lib env m p)) =
         (stats p)\<lparr>messages_sent := messages_sent (stats p) + 1,
                   messages_received := messages_received (stats p) + 1,
                   total_response_time :=
                     total_response_time (stats p) + (end_time env - start_time env) * 1000,
                   min_response_time :=
                     py_min (min_response_time (stats p))
                       (Finite ((end_time env - start_time env) * 1000)),
                   max_response_time :=
                     py_max (max_response_time (stats p))
                       ((end_time env - start_time env) * 1000)\<rparr>"
  by (simp add: send_message_def Let_def)

lemma send_message_no_reply:
  "connection p = Some c \<Longrightarrow> send_raises env = None \<Longrightarrow> recv_result env = Inl e \<Longrightarrow>
     fst (send_message lib env m p) = None
     \<and> stats (snd (send_message lib env m p)) =
         (stats p)\<lparr>messages_sent := messages_sent (stats p) + 1\<rparr>"
  by (simp add: send_message_def Let_def)

lemma ping_test_stats: "stats (snd (ping_test env p)) = stats p"
  by (simp add: ping_test_def split: option.split)

lemma ping_test_connection: "connection (snd (ping_test env p)) = connection p"
  by (simp add: ping_test_def split: option.split)

lemma close_stats: "stats (snd (close lc p)) = stats p"
  by (simp add: close_def split: option.split)

lemma close_connection: "connection (snd (close lc p)) = connection p"
  by (simp add: close_def split: option.split)

lemma py_max_eq_max: "py_max a b = max a b"
  by (simp add: py_max_def max_def)

lemma py_min_Finite: "py_min (Finite a) (Finite b) = Finite (min a b)"
  by (simp add: py_min_def min_def)

lemma py_min_Infinity: "py_min Infinity x = x"
  by (cases x) (simp_all add: py_min_def)

section \<open>Invariants along a sequence of operations\<close>

lemma step_balanced: "balanced (stats p) \<Longrightarrow> balanced (stats (step lib x p))"
  by (cases x)
     (simp_all add: balanced_def connect_stats send_message_conn_counters ping_test_stats
        close_stats)

lemma run_balanced: "balanced (stats p) \<Longrightarrow> balanced (stats (run lib xs p))"
  by (induction xs arbitrary: p) (simp_all add: step_balanced)

lemma new_balanced: "balanced (stats (WebSocketProbe u t h s d))"
  by (simp add: balanced_def WebSocketProbe_def new_stats_def)

lemma send_message_received_le_sent:
  "messages_received (stats p) \<le> messages_sent (stats p) \<Longrightarrow>
     messages_received (stats (snd (send_message lib env m p)))
       \<le> messages_sent (stats (snd (send_message lib env m p)))"
  by (simp add: send_message_def Let_def split: option.split sum.split)

lemma step_received_le_sent:
  "messages_received (stats p) \<le> messages_sent (stats p) \<Longrightarrow>
     messages_received (stats (step lib x p)) \<le> messages_sent (stats (step lib x p))"
  by (cases x)
     (simp_all add: connect_stats send_message_received_le_sent ping_test_stats close_stats)

lemma run_received_le_sent:
  "messages_received (stats p) \<le> messages_sent (stats p) \<Longrightarrow>
     messages_received (stats (run lib xs p)) \<le> messages_sent (stats (run lib xs p))"
  by (induction xs arbitrary: p) (simp_all add: step_received_le_sent)

lemma send_message_stats_wf:
  "stats_wf (stats p) \<Longrightarrow> stats_wf (stats (snd (send_message lib env m p)))"
  by (simp add: send_message_def Let_def stats_wf_def py_max_eq_max le_max_iff_disj
        split: option.split sum.split)

lemma step_stats_wf: "stats_wf (stats p) \<Longrightarrow> stats_wf (stats (step lib x p))"
proof (cases x)
  case (Connect ws)
  assume "stats_wf (stats p)"
  then show ?thesis
    by (simp add: Connect connect_stats stats_wf_def)
qed (simp_all add: send_message_stats_wf ping_test_stats close_stats)

lemma run_stats_wf: "stats_wf (stats p) \<Longrightarrow> stats_wf (stats (run lib xs p))"
  by (induction xs arbitrary: p) (simp_all add: step_stats_wf)

lemma new_stats_wf: "stats_wf new_stats"
  by (simp add: stats_wf_def new_stats_def)

text \<open>A session holds a handle only if one of its connects succeeded.\<close>

lemma step_handle_counted:
  "0 \<le> successful_connections (stats p)
     \<and> (connection p = None \<or> 0 < successful_connections (stats p)) \<Longrightarrow>
   0 \<le> successful_connections (stats (step lib x p))
     \<and> (connection (step lib x p) = None \<or> 0 < successful_connections (stats (step lib x p)))"
proof (cases x)
  case (Connect ws)
  assume "0 \<le> successful_connections (stats p)
     \<and> (connection p = None \<or> 0 < successful_connections (stats p))"
  then show ?thesis
    by (auto simp add: Connect connect_stats connect_connection connect_ok_iff split: sum.split)
qed (simp_all add: send_message_conn_counters send_message_connection ping_test_stats
       ping_test_connection close_stats close_connection)

lemma run_handle_counted:
  "0 \<le> successful_connections (stats p)
     \<and> (connection p = None \<or> 0 < successful_connections (stats p)) \<Longrightarrow>
   0 \<le> successful_connections (stats (run lib xs p))
     \<and> (connection (run lib xs p) = None \<or> 0 < successful_connections (stats (run lib xs p)))"
proof (induction xs arbitrary: p)
  case Nil
  then show ?case by simp
next
  case (Cons x xs)
  from step_handle_counted [OF Cons.prems] show ?case
    by (simp add: Cons.IH)
qed

section \<open>Aggregation in the stress test\<close>

lemma single_test_cases:
  "single_test lib u m hs skip e =
     (let p1 = snd (connect lib (tr_connect e) (WebSocketProbe u 5 hs skip False));
          p2 = (if fst (connect lib (tr_connect e) (WebSocketProbe u 5 hs skip False))
                then snd (send_message lib (tr_send e) m p1) else p1)
      in if connection p2 \<noteq> None \<and> tr_close e \<noteq> None then Inl (the (tr_close e))
         else Inr (stats p2))"
  by (auto simp add: single_test_def Let_def case_prod_beta close_def split: option.split)

lemma single_test_returned:
  assumes "single_test lib u m hs skip e = Inr s"
  shows "connection_attempts s = 1 \<and> balanced s \<and> stats_wf s"
proof -
  define p0 where "p0 = WebSocketProbe u 5 hs skip False"
  define ops where "ops = (if fst (connect lib (tr_connect e) p0)
                   then [Connect (tr_connect e), Send_message (tr_send e) m]
                   else [Connect (tr_connect e)])"
  from assms have s: "s = stats (run lib ops p0)"
    by (simp add: single_test_cases Let_def p0_def ops_def split: if_splits)
  have b: "balanced (stats (run lib ops p0))"
    unfolding p0_def by (rule run_balanced [OF new_balanced])
  have "stats_wf (stats p0)"
    by (simp add: p0_def WebSocketProbe_def new_stats_wf)
  then have w: "stats_wf (stats (run lib ops p0))"
    by (rule run_stats_wf)
  have "stats p0 = new_stats"
    by (simp add: p0_def WebSocketProbe_def)
  then have "connection_attempts (stats (run lib ops p0)) = 1"
    by (simp add: ops_def connect_stats send_message_conn_counters new_stats_def)
  with b w s show ?thesis by simp
qed

lemma aggregate_skips_raised:
  "aggregate t rs = aggregate t (filter (\<lambda>r. \<not> isl r) rs)"
proof (induction rs arbitrary: t)
  case Nil
  show ?case by simp
next
  case (Cons r rs)
  then show ?case by (cases r) simp_all
qed

lemma aggregate_attempts:
  "(\<And>s. Inr s \<in> set rs \<Longrightarrow> connection_attempts s = 1) \<Longrightarrow>
     connection_attempts (aggregate t rs)
       = connection_attempts t + int (length (filter (\<lambda>r. \<not> isl r) rs))"
proof (induction rs arbitrary: t)
  case Nil
  show ?case by simp
next
  case (Cons r rs)
  show ?case
  proof (cases r)
    case (Inl x)
    with Cons show ?thesis by simp
  next
    case (Inr s)
    with Cons.prems have "connection_attempts s = 1" by simp
    with Inr Cons show ?thesis by (simp add: merge_result_def)
  qed
qed

lemma merge_result_balanced:
  "balanced t \<Longrightarrow> balanced s \<Longrightarrow> balanced (merge_result t s)"
  by (simp add: balanced_def merge_result_def)

lemma aggregate_balanced:
  "balanced t \<Longrightarrow> (\<And>s. Inr s \<in> set rs \<Longrightarrow> balanced s) \<Longrightarrow> balanced (aggregate t rs)"
proof (induction rs arbitrary: t)
  case Nil
  then show ?case by simp
next
  case (Cons r rs)
  show ?case
  proof (cases r)
    case (Inl x)
    with Cons show ?thesis by simp
  next
    case (Inr s)
    with Cons.prems have "balanced (merge_result t s)"
      by (simp add: merge_result_balanced)
    with Inr Cons show ?thesis by simp
  qed
qed

lemma stress_results_returned:
  "Inr s \<in> set (stress_results lib envs u count m hs skip) \<Longrightarrow>
     connection_attempts s = 1 \<and> balanced s \<and> stats_wf s"
  by (auto simp add: stress_results_def dest: single_test_returned [OF sym])

section \<open>The example environments evaluated\<close>

lemma example_probe_simps:
  "connection example_probe = None" "stats example_probe = new_stats"
  "logs example_probe = []" "timeout example_probe = 5"
  "uri example_probe = ''ws://localhost:9001/echo''" "debug example_probe = False"
  by (simp_all add: example_probe_def WebSocketProbe_def)

lemma open_connection_examples:
  "open_connection ws_accepts = (Inr (Conn 1), [])"
  "open_connection ws_refused = (Inl (OtherException ''connection refused''), [])"
  "open_connection ws_status_200 =
     (Inl (InvalidStatus None (Some 200) ''server rejected WebSocket connection: HTTP 200''), [])"
  by (simp_all add: open_connection_def ws_accepts_def ws_refused_def ws_status_200_def)

lemma connect_examples:
  "fst (connect lib ws_accepts p) = True" "fst (connect lib ws_refused p) = False"
  "fst (connect lib ws_status_200 p) = False"
  "connection (snd (connect lib ws_accepts p)) = Some (Conn 1)"
  "connection (snd (connect lib ws_refused p)) = connection p"
  by (simp_all add: connect_ok_iff connect_connection open_connection_examples)

lemma connected_probe_simps:
  "connection connected_probe = Some (Conn 1)"
  "stats connected_probe = new_stats\<lparr>connection_attempts := 1, successful_connections := 1\<rparr>"
  by (simp_all add: connected_probe_def connect_examples connect_stats example_probe_simps
        new_stats_def)

lemma echo_stats:
  "stats (snd (send_message lib echo_50ms ''ping'' connected_probe)) =
     \<lparr>connection_attempts = 1, successful_connections = 1, failed_connections = 0,
      messages_sent = 1, messages_received = 1, total_response_time = 50,
      min_response_time = Finite 50, max_response_time = 50\<rparr>"
proof -
  have e: "send_raises echo_50ms = None" "recv_result echo_50ms = Inr ''ping''"
    "(end_time echo_50ms - start_time echo_50ms) * 1000 = 50"
    by (simp_all add: echo_50ms_def)
  from send_message_reply
         [OF connected_probe_simps(1) e(1) e(2), where m = "''ping''" and lib = lib]
  show ?thesis
    by (simp add: echo_50ms_def connected_probe_simps new_stats_def py_min_Infinity
          py_max_eq_max)
qed

lemma refused_stats:
  "stats (snd (connect lib ws_refused example_probe)) =
     \<lparr>connection_attempts = 1, successful_connections = 0, failed_connections = 1,
      messages_sent = 0, messages_received = 0, total_response_time = 0,
      min_response_time = Infinity, max_response_time = 0\<rparr>"
  by (simp add: connect_stats connect_examples example_probe_simps new_stats_def)

lemma single_test_examples:
  "single_test lib u ''ping'' hs skip good_trial =
     Inr \<lparr>connection_attempts = 1, successful_connections = 1, failed_connections = 0,
          messages_sent = 1, messages_received = 1, total_response_time = 50,
          min_response_time = Finite 50, max_response_time = 50\<rparr>"
  "single_test lib u ''ping'' hs skip close_fails_trial = Inl (OtherException ''close failed'')"
  by (simp_all add: single_test_def connect_def open_connection_def ws_accepts_def
        send_message_def echo_50ms_def close_def WebSocketProbe_def new_stats_def Let_def
        py_min_def py_max_def good_trial_def close_fails_trial_def)

lemma upt_3: "[0..<3] = [0, 1, 2::nat]"
  by (simp add: eval_nat_numeral upt_rec)

lemma stress_results_examples:
  "stress_results lib one_raising_trial u 3 ''ping'' hs skip =
     [single_test lib u ''ping'' hs skip good_trial,
      single_test lib u ''ping'' hs skip close_fails_trial,
      single_test lib u ''ping'' hs skip good_trial]"
  "stress_results lib all_good_trials u 3 ''ping'' hs skip =
     [single_test lib u ''ping'' hs skip good_trial,
      single_test lib u ''ping'' hs skip good_trial,
      single_test lib u ''ping'' hs skip good_trial]"
  by (simp_all add: stress_results_def upt_3 one_raising_trial_def all_good_trials_def)

section \<open>The continuous loop\<close>













section \<open>The exception classes at work\<close>

text \<open>The same refused connection and the same failed send are logged differently
  according to the classes the look-up found.\<close>

lemma refused_logs:
  "logs (snd (connect websockets_exceptions ws_refused example_probe))
     = [Info_connecting ''ws://localhost:9001/echo'', Error_connect_failed ''connection refused'']"
  "logs (snd (connect no_exception_classes ws_refused example_probe))
     = [Info_connecting ''ws://localhost:9001/echo'', Error_connect_status Unknown]"
  by (simp_all add: connect_def open_connection_examples example_probe_simps
        connect_prologue_def connect_failure_logs_def get_invalid_status_exception_def
        get_invalid_handshake_exception_def websockets_exceptions_def no_exception_classes_def
        extract_status_code_def status_hints_def)

lemma send_failure_logs_examples:
  "send_failure_logs websockets_exceptions 5 (OtherException ''broken pipe'')
     = [Error_send_failed ''broken pipe'']"
  "send_failure_logs no_exception_classes 5 (OtherException ''broken pipe'')
     = [Error_connection_closed]"
  "send_failure_logs lib 5 TimeoutError = [Error_response_timeout 5]"
  by (simp_all add: send_failure_logs_def get_connection_closed_exception_def
        websockets_exceptions_def no_exception_classes_def)

section \<open>The URL of the HTTP probe\<close>

text \<open>For a target whose remainder holds no further \<^verbatim>\<open>ws://\<close> or \<^verbatim>\<open>wss://\<close> the
  rewriting changes the scheme alone; an upper-case scheme is not rewritten.\<close>

lemma replace_from_absent:
  "old \<noteq> [] \<Longrightarrow> \<not> contains old s \<Longrightarrow> replace_from 0 old new s = s"
  by (induction s) simp_all

lemma http_url_ws:
  assumes "\<not> contains ''ws://'' rest" and "\<not> contains ''wss://'' rest"
  shows "http_url (''ws://'' @ rest) = ''http://'' @ rest"
proof -
  have 1: "replace ''ws://'' ''http://'' (''ws://'' @ rest) = ''http://'' @ rest"
    using assms(1) by (simp add: replace_def eval_nat_numeral replace_from_absent)
  have 2: "replace ''wss://'' ''https://'' (''http://'' @ rest) = ''http://'' @ rest"
    using assms(2) by (simp add: replace_def replace_from_absent)
  show ?thesis
    by (simp only: http_url_def 1 2)
qed

lemma http_url_wss:
  assumes "\<not> contains ''ws://'' rest" and "\<not> contains ''wss://'' rest"
  shows "http_url (''wss://'' @ rest) = ''https://'' @ rest"
proof -
  have 1: "replace ''ws://'' ''http://'' (''wss://'' @ rest) = ''wss://'' @ rest"
    using assms(1) by (simp add: replace_def replace_from_absent)
  have 2: "replace ''wss://'' ''https://'' (''wss://'' @ rest) = ''https://'' @ rest"
    using assms(2) by (simp add: replace_def eval_nat_numeral replace_from_absent)
  show ?thesis
    by (simp only: http_url_def 1 2)
qed

lemma http_url_upper: "http_url ''WS://localhost:9001/echo'' = ''WS://localhost:9001/echo''"
  by (simp add: http_url_def replace_def)

lemma http_url_example: "http_url ''ws://localhost:9001/echo'' = ''http://localhost:9001/echo''"
  by (simp add: http_url_def replace_def)

section \<open>The claims\<close>

text \<open>
  C1.  On a session built by the constructor, after any sequence of operations (so after
  each connect in it) the successful and the failed connections add up to the connection
  attempts; and a connect adds one to the attempts and one to exactly one of the two
  other counters, to the successes when it returns True and to the failures otherwise.
\<close>

theorem connect_counters_balanced:
  "successful_connections (stats (run lib ops (WebSocketProbe u t h s d)))
     + failed_connections (stats (run lib ops (WebSocketProbe u t h s d)))
   = connection_attempts (stats (run lib ops (WebSocketProbe u t h s d)))
   \<and> connection_attempts (stats (snd (connect lib ws p))) = connection_attempts (stats p) + 1
   \<and> successful_connections (stats (snd (connect lib ws p)))
       = successful_connections (stats p) + (if fst (connect lib ws p) then 1 else 0)
   \<and> failed_connections (stats (snd (connect lib ws p)))
       = failed_connections (stats p) + (if fst (connect lib ws p) then 0 else 1)"
proof -
  have "balanced (stats (run lib ops (WebSocketProbe u t h s d)))"
    by (rule run_balanced [OF new_balanced])
  then show ?thesis
    by (simp add: balanced_def connect_stats)
qed

theorem connect_counters_balanced_witness:
  "successful_connections (stats (run websockets_exceptions [Connect ws_refused, Connect ws_accepts, Close None]
      (WebSocketProbe ''ws://localhost:9001/echo'' 5 [] False False)))
     + failed_connections (stats (run websockets_exceptions [Connect ws_refused, Connect ws_accepts, Close None]
      (WebSocketProbe ''ws://localhost:9001/echo'' 5 [] False False)))
   = connection_attempts (stats (run websockets_exceptions [Connect ws_refused, Connect ws_accepts, Close None]
      (WebSocketProbe ''ws://localhost:9001/echo'' 5 [] False False)))
   \<and> connection_attempts (stats (snd (connect websockets_exceptions ws_refused example_probe))) = 1
   \<and> failed_connections (stats (snd (connect websockets_exceptions ws_refused example_probe))) = 1
   \<and> successful_connections (stats (snd (connect websockets_exceptions ws_refused example_probe))) = 0"
  using connect_counters_balanced
    [where lib = websockets_exceptions
       and ops = "[Connect ws_refused, Connect ws_accepts, Close None]"
       and u = "''ws://localhost:9001/echo''" and t = 5 and h = "[]" and s = False
       and d = False and ws = ws_refused and p = example_probe]
  by (simp add: example_probe_def WebSocketProbe_def new_stats_def connect_def
        open_connection_def ws_refused_def)

text \<open>
  C2.  Merging a record without received messages (as the operations leave it: minimum
  still infinite, maximum still 0) into a record, or such a record into it, leaves that
  record's minimum and maximum response time as they were, while the six other entries
  are added.
\<close>

theorem merge_zero_receive_identity:
  assumes "stats_wf r" and "messages_received r = 0" and "stats_wf t"
  shows "min_response_time (merge_result t r) = min_response_time t
     \<and> max_response_time (merge_result t r) = max_response_time t
     \<and> min_response_time (merge_result r t) = min_response_time t
     \<and> max_response_time (merge_result r t) = max_response_time t
     \<and> connection_attempts (merge_result t r) = connection_attempts t + connection_attempts r
     \<and> successful_connections (merge_result t r)
         = successful_connections t + successful_connections r
     \<and> failed_connections (merge_result t r) = failed_connections t + failed_connections r
     \<and> messages_sent (merge_result t r) = messages_sent t + messages_sent r
     \<and> messages_received (merge_result t r) = messages_received t + messages_received r
     \<and> total_response_time (merge_result t r) = total_response_time t + total_response_time r"
proof -
  from assms(1,2) have r: "min_response_time r = Infinity" "max_response_time r = 0"
    by (simp_all add: stats_wf_def)
  from assms(3) have t: "0 \<le> max_response_time t"
    by (simp add: stats_wf_def)
  have "min_response_time (merge_result r t) = min_response_time t"
    by (cases "min_response_time t") (simp_all add: merge_result_def r py_min_Infinity)
  with r t show ?thesis
    by (simp add: merge_result_def py_max_eq_max)
qed

theorem merge_zero_receive_identity_witness:
  "stats_wf (stats (snd (connect websockets_exceptions ws_refused example_probe)))
   \<and> messages_received (stats (snd (connect websockets_exceptions ws_refused example_probe))) = 0
   \<and> stats_wf (stats (snd (send_message websockets_exceptions echo_50ms ''ping'' connected_probe)))
   \<and> min_response_time (merge_result (stats (snd (send_message websockets_exceptions echo_50ms ''ping'' connected_probe)))
        (stats (snd (connect websockets_exceptions ws_refused example_probe)))) = Finite 50
   \<and> max_response_time (merge_result (stats (snd (send_message websockets_exceptions echo_50ms ''ping'' connected_probe)))
        (stats (snd (connect websockets_exceptions ws_refused example_probe)))) = 50
   \<and> connection_attempts (merge_result (stats (snd (send_message websockets_exceptions echo_50ms ''ping'' connected_probe)))
        (stats (snd (connect websockets_exceptions ws_refused example_probe)))) = 2"
proof -
  have h1: "stats_wf (stats (snd (connect websockets_exceptions ws_refused example_probe)))"
    by (simp add: refused_stats stats_wf_def)
  have h2: "messages_received (stats (snd (connect websockets_exceptions ws_refused example_probe))) = 0"
    by (simp add: refused_stats)
  have h3: "stats_wf (stats (snd (send_message websockets_exceptions echo_50ms ''ping'' connected_probe)))"
    by (simp add: echo_stats stats_wf_def)
  from merge_zero_receive_identity [OF h1 h2 h3] h1 h2 h3 show ?thesis
    by (simp add: echo_stats refused_stats)
qed

text \<open>
  C3 (as amended).  In the stress test with a positive concurrency the driver returns and
  prints one summary, whatever the trials do.  A trial that raises aborts neither the
  other trials nor the aggregation, but the aggregation passes over its result: it adds
  nothing to any entry, neither to the failed connections nor to the connection attempts.
  Every trial that returns adds its statistics, with exactly one connection attempt, so
  the merged connection attempts are the number of trials that returned; they are the
  count when no trial raised.  In the summary the successes and failures add up to the
  attempts.
\<close>

theorem stress_counts_returned_trials:
  assumes "0 < concurrency"
  shows "stress_test lib envs u count concurrency m hs skip =
           Some (None, [Out_stress_start count concurrency,
                        Out_stress_summary
                          (aggregate new_stats (stress_results lib envs u count m hs skip))])
     \<and> length (stress_results lib envs u count m hs skip) = nat count
     \<and> aggregate new_stats (stress_results lib envs u count m hs skip)
         = aggregate new_stats
             (filter (\<lambda>r. \<not> isl r) (stress_results lib envs u count m hs skip))
     \<and> connection_attempts (aggregate new_stats (stress_results lib envs u count m hs skip))
         = int (length (filter (\<lambda>r. \<not> isl r) (stress_results lib envs u count m hs skip)))
     \<and> successful_connections (aggregate new_stats (stress_results lib envs u count m hs skip))
         + failed_connections (aggregate new_stats (stress_results lib envs u count m hs skip))
         = connection_attempts (aggregate new_stats (stress_results lib envs u count m hs skip))
     \<and> (0 \<le> count \<and> filter isl (stress_results lib envs u count m hs skip) = [] \<longrightarrow>
          connection_attempts (aggregate new_stats (stress_results lib envs u count m hs skip))
            = count)"
proof -
  let ?rs = "stress_results lib envs u count m hs skip"
  have len: "length ?rs = nat count"
    by (simp add: stress_results_def)
  have att: "connection_attempts (aggregate new_stats ?rs)
               = int (length (filter (\<lambda>r. \<not> isl r) ?rs))"
    using aggregate_attempts [of ?rs new_stats] stress_results_returned
      [where lib = lib and envs = envs and u = u and count = count and m = m and hs = hs
         and skip = skip]
    by (simp add: new_stats_def)
  have "balanced new_stats"
    by (simp add: balanced_def new_stats_def)
  then have bal: "balanced (aggregate new_stats ?rs)"
    using stress_results_returned
      [where lib = lib and envs = envs and u = u and count = count and m = m and hs = hs
         and skip = skip]
    by (blast intro: aggregate_balanced)
  have all: "connection_attempts (aggregate new_stats ?rs) = count"
    if "0 \<le> count \<and> filter isl ?rs = []"
  proof -
    from that have "filter (\<lambda>r. \<not> isl r) ?rs = ?rs"
      by (simp add: filter_empty_conv)
    with att len that show ?thesis by simp
  qed
  from assms have out: "stress_test lib envs u count concurrency m hs skip =
           Some (None, [Out_stress_start count concurrency,
                        Out_stress_summary (aggregate new_stats ?rs)])"
    by (simp add: stress_test_def)
  have skip: "aggregate new_stats ?rs = aggregate new_stats (filter (\<lambda>r. \<not> isl r) ?rs)"
    by (rule aggregate_skips_raised)
  from bal have sum: "successful_connections (aggregate new_stats ?rs)
         + failed_connections (aggregate new_stats ?rs)
         = connection_attempts (aggregate new_stats ?rs)"
    by (simp add: balanced_def)
  from out len skip att sum all show ?thesis
    by blast
qed

theorem stress_counts_returned_trials_witness:
  "(0::int) < 2
   \<and> connection_attempts (aggregate new_stats
        (stress_results websockets_exceptions one_raising_trial ''ws://localhost:9001/echo'' 3 ''ping'' [] False)) = 2
   \<and> connection_attempts (aggregate new_stats
        (stress_results websockets_exceptions all_good_trials ''ws://localhost:9001/echo'' 3 ''ping'' [] False)) = 3"
proof -
  have h: "(0::int) < 2" by simp
  have n: "filter isl
     (stress_results websockets_exceptions all_good_trials ''ws://localhost:9001/echo'' 3 ''ping'' [] False) = []"
    by (simp add: stress_results_examples single_test_examples)
  from stress_counts_returned_trials
         [OF h, where lib = websockets_exceptions and envs = one_raising_trial
            and u = "''ws://localhost:9001/echo''" and count = 3 and m = "''ping''"
            and hs = "[]" and skip = False]
       stress_counts_returned_trials
         [OF h, where lib = websockets_exceptions and envs = all_good_trials
            and u = "''ws://localhost:9001/echo''" and count = 3 and m = "''ping''"
            and hs = "[]" and skip = False]
       n
  show ?thesis
    by (simp add: stress_results_examples single_test_examples)
qed

text \<open>
  C3 as stated fails: of three trials the second connects, exchanges a message and then
  raises from its close.  The summary counts two attempts, not three, and no failed
  connection.
\<close>

theorem stress_raising_trial_counterexample:
  "stress_results websockets_exceptions one_raising_trial ''ws://localhost:9001/echo'' 3 ''ping'' [] False ! 1
     = Inl (OtherException ''close failed'')
   \<and> stress_test websockets_exceptions one_raising_trial ''ws://localhost:9001/echo'' 3 2 ''ping'' [] False
     = Some (None, [Out_stress_start 3 2,
         Out_stress_summary
           \<lparr>connection_attempts = 2, successful_connections = 2, failed_connections = 0,
            messages_sent = 2, messages_received = 2, total_response_time = 100,
            min_response_time = Finite 50, max_response_time = 50\<rparr>])
   \<and> connection_attempts (aggregate new_stats
        (stress_results websockets_exceptions one_raising_trial ''ws://localhost:9001/echo'' 3 ''ping'' [] False)) \<noteq> 3
   \<and> failed_connections (aggregate new_stats
        (stress_results websockets_exceptions one_raising_trial ''ws://localhost:9001/echo'' 3 ''ping'' [] False)) = 0"
  by (simp add: stress_test_def stress_results_examples single_test_examples merge_result_def
        new_stats_def py_min_def py_max_def)

text \<open>
  C4 (as amended).  A constructed session has no handle; a connect that fails leaves the
  handle as it was and a connect that succeeds stores one.  close never clears the handle:
  it changes neither the handle nor the statistics, so a repeated close leaves both as the
  first did.  On a session without a handle close does nothing and returns normally
  whatever the library would do, and with a handle it returns normally when the
  library's close does.
\<close>

theorem connection_handle_lifecycle:
  "connection (WebSocketProbe u t h s d) = None
   \<and> (\<not> fst (connect lib ws p) \<longrightarrow> connection (snd (connect lib ws p)) = connection p)
   \<and> (fst (connect lib ws p) \<longrightarrow> (\<exists>c. connection (snd (connect lib ws p)) = Some c))
   \<and> connection (snd (close lib_close p)) = connection p
   \<and> stats (snd (close lib_close p)) = stats p
   \<and> (connection p = None \<longrightarrow> close lib_close p = (None, p))
   \<and> fst (close None p) = None"
proof -
  have "connection (WebSocketProbe u t h s d) = None"
    by (simp add: WebSocketProbe_def)
  moreover have "\<not> fst (connect lib ws p) \<longrightarrow> connection (snd (connect lib ws p)) = connection p"
    by (cases "fst (open_connection ws)") (simp_all add: connect_ok_iff connect_connection)
  moreover have "fst (connect lib ws p) \<longrightarrow> (\<exists>c. connection (snd (connect lib ws p)) = Some c)"
    by (cases "fst (open_connection ws)") (simp_all add: connect_ok_iff connect_connection)
  moreover have "connection p = None \<longrightarrow> close lib_close p = (None, p)"
    by (simp add: close_def)
  moreover have "fst (close None p) = None"
    by (simp add: close_def split: option.split)
  ultimately show ?thesis
    by (simp add: close_connection close_stats)
qed

theorem connection_handle_lifecycle_witness:
  "\<not> fst (connect websockets_exceptions ws_refused example_probe)
   \<and> connection (snd (connect websockets_exceptions ws_refused example_probe)) = None
   \<and> fst (connect websockets_exceptions ws_accepts example_probe)
   \<and> connection (snd (connect websockets_exceptions ws_accepts example_probe)) \<noteq> None
   \<and> connection example_probe = None
   \<and> close (Some (OtherException ''close failed'')) example_probe = (None, example_probe)"
  using connection_handle_lifecycle
          [where u = "''ws://localhost:9001/echo''" and t = 5 and h = "[]" and s = False
             and d = False and lib = websockets_exceptions and ws = ws_refused
             and p = example_probe and lib_close = "Some (OtherException ''close failed'')"]
        connection_handle_lifecycle
          [where u = "''ws://localhost:9001/echo''" and t = 5 and h = "[]" and s = False
             and d = False and lib = websockets_exceptions and ws = ws_accepts
             and p = example_probe and lib_close = None]
  by (auto simp add: connect_examples example_probe_simps)

text \<open>
  C4 as stated fails: after a successful connect and a close the handle is still present,
  and it is still present after a later connect that fails.
\<close>

theorem close_keeps_handle_counterexample:
  "connection (run websockets_exceptions [Connect ws_accepts, Close None] example_probe) = Some (Conn 1)
   \<and> \<not> fst (connect websockets_exceptions ws_refused (run websockets_exceptions [Connect ws_accepts, Close None] example_probe))
   \<and> connection (run websockets_exceptions [Connect ws_accepts, Close None, Connect ws_refused] example_probe)
       = Some (Conn 1)"
  by (simp add: connect_examples close_connection)

text \<open>
  C5 fails on the code: \<open>http_probe\<close> rewrites every occurrence of \<^verbatim>\<open>ws://\<close> in the URI,
  not only the scheme.  For a target whose query names a second WebSocket URI the GET goes
  to a URL whose query was changed too.
\<close>

theorem http_url_rewrites_inner_occurrence:
  "req_url (http_request_of
      (WebSocketProbe ''ws://proxy.example/connect?target=ws://backend/'' 5 [] False False))
     = ''http://proxy.example/connect?target=http://backend/''"
  by (simp add: http_request_of_def http_url_def replace_def WebSocketProbe_def)

text \<open>
  C6.  A \<open>send_message\<close> on a session with a handle whose send goes out: when the reply
  arrives it returns the measured response time, adds one to the messages sent and one to
  the messages received, adds the response time to the total and folds it into the
  minimum and the maximum; when the wait for the reply times out it returns \<open>None\<close> and
  the messages received (and the response times) stay as they were.
\<close>

theorem send_message_reply_or_timeout:
  assumes "connection p = Some c" and "send_raises env = None"
    and "rt = (end_time env - start_time env) * 1000"
  shows "(recv_result env = Inr reply \<longrightarrow>
            fst (send_message lib env m p) = Some rt
          \<and> messages_sent (stats (snd (send_message lib env m p))) = messages_sent (stats p) + 1
          \<and> messages_received (stats (snd (send_message lib env m p)))
              = messages_received (stats p) + 1
          \<and> total_response_time (stats (snd (send_message lib env m p)))
              = total_response_time (stats p) + rt
          \<and> min_response_time (stats (snd (send_message lib env m p)))
              = (case min_response_time (stats p) of
                   Infinity \<Rightarrow> Finite rt
                 | Finite a \<Rightarrow> Finite (min a rt))
          \<and> max_response_time (stats (snd (send_message lib env m p)))
              = max (max_response_time (stats p)) rt)
     \<and> (recv_result env = Inl TimeoutError \<longrightarrow>
            fst (send_message lib env m p) = None
          \<and> messages_received (stats (snd (send_message lib env m p)))
              = messages_received (stats p)
          \<and> messages_sent (stats (snd (send_message lib env m p))) = messages_sent (stats p) + 1
          \<and> total_response_time (stats (snd (send_message lib env m p)))
              = total_response_time (stats p)
          \<and> min_response_time (stats (snd (send_message lib env m p)))
              = min_response_time (stats p)
          \<and> max_response_time (stats (snd (send_message lib env m p)))
              = max_response_time (stats p))"
proof -
  have "py_min x (Finite rt) = (case x of Infinity \<Rightarrow> Finite rt | Finite a \<Rightarrow> Finite (min a rt))"
    for x
    by (cases x) (simp_all add: py_min_Infinity py_min_Finite)
  with assms send_message_reply [OF assms(1,2), where reply = reply and m = m and lib = lib]
    send_message_no_reply [OF assms(1,2), where e = TimeoutError and m = m and lib = lib]
  show ?thesis
    by (simp add: py_max_eq_max)
qed

theorem send_message_reply_or_timeout_witness:
  "connection connected_probe = Some (Conn 1) \<and> send_raises echo_50ms = None
   \<and> send_raises no_reply = None
   \<and> fst (send_message websockets_exceptions echo_50ms ''ping'' connected_probe) = Some 50
   \<and> messages_received (stats (snd (send_message websockets_exceptions echo_50ms ''ping'' connected_probe))) = 1
   \<and> min_response_time (stats (snd (send_message websockets_exceptions echo_50ms ''ping'' connected_probe)))
       = Finite 50
   \<and> fst (send_message websockets_exceptions no_reply ''ping'' connected_probe) = None
   \<and> messages_received (stats (snd (send_message websockets_exceptions no_reply ''ping'' connected_probe))) = 0
   \<and> messages_sent (stats (snd (send_message websockets_exceptions no_reply ''ping'' connected_probe))) = 1"
proof -
  have h1: "connection connected_probe = Some (Conn 1)"
    by (rule connected_probe_simps)
  have h2: "send_raises echo_50ms = None" and h3: "send_raises no_reply = None"
    by (simp_all add: echo_50ms_def no_reply_def)
  have r1: "(50::real) = (end_time echo_50ms - start_time echo_50ms) * 1000"
    by (simp add: echo_50ms_def)
  have r2: "(5000::real) = (end_time no_reply - start_time no_reply) * 1000"
    by (simp add: no_reply_def)
  have e: "recv_result echo_50ms = Inr ''ping''" "recv_result no_reply = Inl TimeoutError"
    by (simp_all add: echo_50ms_def no_reply_def)
  from send_message_reply_or_timeout
         [OF h1 h2 r1, where reply = "''ping''" and m = "''ping''"
            and lib = websockets_exceptions]
       send_message_reply_or_timeout
         [OF h1 h3 r2, where reply = "''ping''" and m = "''ping''"
            and lib = websockets_exceptions]
       h1 h2 h3 e
  show ?thesis
    by (simp add: connected_probe_simps new_stats_def)
qed

text \<open>
  C7.  On a session none of whose connects succeeded there is no handle, and
  \<open>send_message\<close> returns \<open>None\<close> at once: it logs that there is no active connection
  and leaves the statistics, the messages sent and received among them, unchanged.
\<close>

theorem send_message_never_connected:
  assumes "successful_connections (stats (run lib ops (WebSocketProbe u t h s d))) = 0"
  shows "send_message lib env m (run lib ops (WebSocketProbe u t h s d))
           = (None, (run lib ops (WebSocketProbe u t h s d))
                      \<lparr>logs := logs (run lib ops (WebSocketProbe u t h s d))
                                @ [Error_no_active_connection]\<rparr>)
     \<and> stats (snd (send_message lib env m (run lib ops (WebSocketProbe u t h s d))))
         = stats (run lib ops (WebSocketProbe u t h s d))
     \<and> connection (run lib ops (WebSocketProbe u t h s d)) = None"
proof -
  have "0 \<le> successful_connections (stats (WebSocketProbe u t h s d))
     \<and> (connection (WebSocketProbe u t h s d) = None
        \<or> 0 < successful_connections (stats (WebSocketProbe u t h s d)))"
    by (simp add: WebSocketProbe_def new_stats_def)
  from run_handle_counted [OF this, where xs = ops and lib = lib] assms
  have none: "connection (run lib ops (WebSocketProbe u t h s d)) = None"
    by simp
  from send_message_no_handle [OF none, where env = env and m = m and lib = lib] none show ?thesis
    by simp
qed

theorem send_message_never_connected_witness:
  "successful_connections
     (stats (run websockets_exceptions [Connect ws_refused, Close None]
               (WebSocketProbe ''ws://localhost:9001/echo'' 5 [] False False))) = 0
   \<and> fst (send_message websockets_exceptions echo_50ms ''ping''
        (run websockets_exceptions [Connect ws_refused, Close None]
           (WebSocketProbe ''ws://localhost:9001/echo'' 5 [] False False))) = None
   \<and> messages_sent (stats (snd (send_message websockets_exceptions echo_50ms ''ping''
        (run websockets_exceptions [Connect ws_refused, Close None]
           (WebSocketProbe ''ws://localhost:9001/echo'' 5 [] False False))))) = 0
   \<and> messages_received (stats (snd (send_message websockets_exceptions echo_50ms ''ping''
        (run websockets_exceptions [Connect ws_refused, Close None]
           (WebSocketProbe ''ws://localhost:9001/echo'' 5 [] False False))))) = 0"
proof -
  have h: "successful_connections
     (stats (run websockets_exceptions [Connect ws_refused, Close None]
               (WebSocketProbe ''ws://localhost:9001/echo'' 5 [] False False))) = 0"
    by (simp add: close_stats connect_stats connect_examples WebSocketProbe_def new_stats_def)
  from send_message_never_connected [OF h, where env = echo_50ms and m = "''ping''"] h show ?thesis
    by (simp add: close_stats connect_stats connect_examples WebSocketProbe_def new_stats_def)
qed






text \<open>
  C10.  After any sequence of operations on a constructed session the messages received
  do not exceed the messages sent; and a \<open>send_message\<close> whose send went out but whose
  wait for the reply raised (a timeout or any other exception) returns \<open>None\<close>, has
  counted one message sent and none received.
\<close>

theorem received_never_exceeds_sent:
  "messages_received (stats (run lib ops (WebSocketProbe u t h s d)))
     \<le> messages_sent (stats (run lib ops (WebSocketProbe u t h s d)))
   \<and> (connection p \<noteq> None \<and> send_raises env = None \<and> recv_result env = Inl e \<longrightarrow>
        fst (send_message lib env m p) = None
      \<and> messages_sent (stats (snd (send_message lib env m p))) = messages_sent (stats p) + 1
      \<and> messages_received (stats (snd (send_message lib env m p))) = messages_received (stats p))"
proof -
  have "messages_received (stats (WebSocketProbe u t h s d))
          \<le> messages_sent (stats (WebSocketProbe u t h s d))"
    by (simp add: WebSocketProbe_def new_stats_def)
  then have "messages_received (stats (run lib ops (WebSocketProbe u t h s d)))
     \<le> messages_sent (stats (run lib ops (WebSocketProbe u t h s d)))"
    by (rule run_received_le_sent)
  moreover have "fst (send_message lib env m p) = None
      \<and> messages_sent (stats (snd (send_message lib env m p))) = messages_sent (stats p) + 1
      \<and> messages_received (stats (snd (send_message lib env m p))) = messages_received (stats p)"
    if "connection p \<noteq> None \<and> send_raises env = None \<and> recv_result env = Inl e"
  proof -
    from that obtain c where "connection p = Some c" by auto
    from send_message_no_reply [OF this, where env = env and e = e and m = m and lib = lib] that show ?thesis by simp
  qed
  ultimately show ?thesis by blast
qed

theorem received_never_exceeds_sent_witness:
  "connection connected_probe \<noteq> None \<and> send_raises no_reply = None
   \<and> recv_result no_reply = Inl TimeoutError
   \<and> messages_sent (stats (snd (send_message websockets_exceptions no_reply ''ping'' connected_probe))) = 1
   \<and> messages_received (stats (snd (send_message websockets_exceptions no_reply ''ping'' connected_probe))) = 0
   \<and> messages_received (stats (run websockets_exceptions [Connect ws_accepts, Send_message no_reply ''ping'',
         Send_message echo_50ms ''ping'', Close None] example_probe))
     \<le> messages_sent (stats (run websockets_exceptions [Connect ws_accepts, Send_message no_reply ''ping'',
         Send_message echo_50ms ''ping'', Close None] example_probe))"
proof -
  have h: "connection connected_probe \<noteq> None \<and> send_raises no_reply = None
     \<and> recv_result no_reply = Inl TimeoutError"
    by (simp add: connected_probe_simps no_reply_def)
  from received_never_exceeds_sent
         [where lib = websockets_exceptions
            and ops = "[Connect ws_accepts, Send_message no_reply ''ping'',
                        Send_message echo_50ms ''ping'', Close None]"
            and u = "''ws://localhost:9001/echo''" and t = 5 and h = "[]" and s = False
            and d = False and p = connected_probe and env = no_reply and e = TimeoutError
            and m = "''ping''"] h
  show ?thesis
    by (simp add: connected_probe_simps new_stats_def example_probe_def)
qed

end
